theory Spec2Isabelle
  imports Complex_Main
begin

section \<open>Values of the numeric libraries\<close>

text \<open>
  The histogram container of \<^verbatim>\<open>pisa/core/map.py\<close> stores its bins in a numpy array whose
  elements are either plain floats or numbers with uncertainties (a nominal value and a
  standard deviation). Floats are idealised as reals extended by the two infinities and
  NaN; rounding of the floating-point operations is not modelled.
\<close>

datatype error =
    TypeError string
  | ValueError string
  | IndexError string
  | AssertionError string
  | AttributeError string
  | NegativeStdDev
  | ShapeError
  | CompatError

datatype npfloat = Fin real | PInf | NInf | NaN

datatype elem = F npfloat | U npfloat npfloat

record 'a ndarray =
  shape :: "nat list"
  flat :: "'a list"

datatype binop = Add | Sub | Mul | Div | Pow

type_synonym elementwise = "binop \<Rightarrow> elem \<Rightarrow> elem \<Rightarrow> error + elem"

fun nominal_value :: "elem \<Rightarrow> npfloat" where
  "nominal_value (F x) = x"
| "nominal_value (U n s) = n"

fun std_dev :: "elem \<Rightarrow> npfloat" where
  "std_dev (F x) = Fin 0"
| "std_dev (U n s) = s"

fun is_float :: "elem \<Rightarrow> bool" where
  "is_float (F x) = True"
| "is_float (U n s) = False"

definition nominal_values :: "elem ndarray \<Rightarrow> npfloat ndarray" where
  "nominal_values a = \<lparr>shape = shape a, flat = map nominal_value (flat a)\<rparr>"

definition std_devs :: "elem ndarray \<Rightarrow> npfloat ndarray" where
  "std_devs a = \<lparr>shape = shape a, flat = map std_dev (flat a)\<rparr>"

definition float_array :: "npfloat ndarray \<Rightarrow> elem ndarray" where
  "float_array a = \<lparr>shape = shape a, flat = map F (flat a)\<rparr>"

definition scalar_array :: "'a \<Rightarrow> 'a ndarray" where
  "scalar_array x = \<lparr>shape = [], flat = [x]\<rparr>"

text \<open>IEEE comparison \<^verbatim>\<open>==\<close>: NaN equals nothing, itself included.\<close>

fun feq :: "npfloat \<Rightarrow> npfloat \<Rightarrow> bool" where
  "feq NaN y = False"
| "feq x NaN = False"
| "feq x y = (x = y)"

text \<open>\<^verbatim>\<open>np.sqrt\<close> on one float: a negative argument gives NaN (with a warning).\<close>

fun fsqrt :: "npfloat \<Rightarrow> npfloat" where
  "fsqrt (Fin x) = (if x < 0 then NaN else Fin (sqrt x))"
| "fsqrt PInf = PInf"
| "fsqrt NInf = NaN"
| "fsqrt NaN = NaN"

subsection \<open>Broadcasting\<close>

text \<open>
  numpy combines two arrays element by element after aligning their shapes from the
  right; an axis of length 1 is repeated along the other array's axis. Arrays are kept
  flat in row-major order.
\<close>

fun bc_rev :: "nat list \<Rightarrow> nat list \<Rightarrow> nat list option" where
  "bc_rev [] ys = Some ys"
| "bc_rev xs [] = Some xs"
| "bc_rev (x # xs) (y # ys) =
     (if x = y \<or> y = 1 then map_option ((#) x) (bc_rev xs ys)
      else if x = 1 then map_option ((#) y) (bc_rev xs ys)
      else None)"

definition broadcast_shapes :: "nat list \<Rightarrow> nat list \<Rightarrow> nat list option" where
  "broadcast_shapes s t = map_option rev (bc_rev (rev s) (rev t))"

definition pad_shape :: "nat \<Rightarrow> nat list \<Rightarrow> nat list" where
  "pad_shape r s = replicate (r - length s) 1 @ s"

definition chunk :: "nat \<Rightarrow> nat \<Rightarrow> nat \<Rightarrow> 'a list \<Rightarrow> 'a list" where
  "chunk d p i zs = take p (drop ((if d = 1 then 0 else i) * p) zs)"

fun bc_data :: "('a \<Rightarrow> 'b \<Rightarrow> 'c) \<Rightarrow> nat list \<Rightarrow> 'a list \<Rightarrow> nat list \<Rightarrow> 'b list \<Rightarrow> 'c list" where
  "bc_data f (m # ms) xs (n # ns) ys =
     concat (map (\<lambda>i. bc_data f ms (chunk m (prod_list ms) i xs) ns (chunk n (prod_list ns) i ys))
                 [0 ..< (if m = 1 then n else m)])"
| "bc_data f [] (x # xs) [] (y # ys) = [f x y]"
| "bc_data f s xs t ys = []"

definition np_broadcast :: "('a \<Rightarrow> 'b \<Rightarrow> 'c) \<Rightarrow> 'a ndarray \<Rightarrow> 'b ndarray \<Rightarrow> error + 'c ndarray" where
  "np_broadcast f a b =
     (case broadcast_shapes (shape a) (shape b) of
        None \<Rightarrow> Inl (ValueError ''operands could not be broadcast together'')
      | Some s \<Rightarrow>
          Inr \<lparr>shape = s,
               flat = bc_data f (pad_shape (length s) (shape a)) (flat a)
                                (pad_shape (length s) (shape b)) (flat b)\<rparr>)"

text \<open>An exception raised for one element aborts the whole array operation.\<close>

fun first_error :: "(error + 'a) list \<Rightarrow> error + 'a list" where
  "first_error [] = Inr []"
| "first_error (Inl e # rs) = Inl e"
| "first_error (Inr x # rs) = (case first_error rs of Inl e \<Rightarrow> Inl e | Inr xs \<Rightarrow> Inr (x # xs))"

definition np_elementwise :: "('a \<Rightarrow> 'b \<Rightarrow> error + 'c) \<Rightarrow> 'a ndarray \<Rightarrow> 'b ndarray \<Rightarrow> error + 'c ndarray" where
  "np_elementwise f a b =
     (case np_broadcast f a b of
        Inl e \<Rightarrow> Inl e
      | Inr r \<Rightarrow> (case first_error (flat r) of
                   Inl e \<Rightarrow> Inl e
                 | Inr zs \<Rightarrow> Inr \<lparr>shape = shape r, flat = zs\<rparr>))"

text \<open>
  \<^verbatim>\<open>np.all(a == b)\<close> on float arrays. Arrays that cannot be broadcast compare as the
  single value False.
\<close>

definition np_all_eq :: "npfloat ndarray \<Rightarrow> npfloat ndarray \<Rightarrow> bool" where
  "np_all_eq a b = (case np_broadcast feq a b of Inl e \<Rightarrow> False | Inr r \<Rightarrow> list_all id (flat r))"

text \<open>
  \<^verbatim>\<open>uncertainties.Variable(value, std_dev)\<close>: the value must convert to a float, the
  standard deviation must be a float that is not a negative finite number.
\<close>

fun new_variable :: "elem \<Rightarrow> elem \<Rightarrow> error + elem" where
  "new_variable (F v) (F (Fin s)) = (if s < 0 then Inl NegativeStdDev else Inr (U v (Fin s)))"
| "new_variable (F v) (F s) = Inr (U v s)"
| "new_variable v s = Inl (TypeError ''can't convert an affine function to float'')"

definition unp_uarray :: "elem ndarray \<Rightarrow> elem ndarray \<Rightarrow> error + elem ndarray" where
  "unp_uarray noms stds = np_elementwise new_variable noms stds"

text \<open>
  \<^verbatim>\<open>np.sqrt\<close> on an array: a float array is mapped element by element; on an array of
  objects numpy looks for a method \<^verbatim>\<open>sqrt\<close> on each element, which numbers with
  uncertainties do not have. An array all of whose elements are plain floats stands for
  a float array.
\<close>

definition np_sqrt :: "elem ndarray \<Rightarrow> error + elem ndarray" where
  "np_sqrt a =
     (if list_all is_float (flat a)
      then Inr \<lparr>shape = shape a, flat = map (\<lambda>x. F (fsqrt (nominal_value x))) (flat a)\<rparr>
      else Inl (AttributeError ''sqrt''))"

definition np_reshape :: "'a ndarray \<Rightarrow> nat list \<Rightarrow> error + 'a ndarray" where
  "np_reshape a s =
     (if prod_list s = length (flat a) then Inr \<lparr>shape = s, flat = flat a\<rparr>
      else Inl (ValueError ''total size of new array must be unchanged''))"

section \<open>The binning collaborator\<close>

text \<open>
  Modelled from the spec: the module \<^verbatim>\<open>pisa.core.binning\<close> (classes OneDimBinning and
  MultiDimBinning) is not among the sources. The spec describes a binning as an immutable
  description of one or more ordered axes. An axis is taken to be its name and its bin
  edges, a binning to be the list of its axes.
\<close>

record OneDimBinning =
  dim_name :: string
  bin_edges :: "real list"

datatype MultiDimBinning = MultiDimBinning (dimensions: "OneDimBinning list")

text \<open>Modelled from the spec: the number of bins of an axis (one less than its edges).\<close>

definition num_bins :: "OneDimBinning \<Rightarrow> nat" where
  "num_bins d = length (bin_edges d) - 1"

text \<open>Modelled from the spec: the collaborator's \<^verbatim>\<open>shape\<close>, the bin count of every axis.\<close>

definition binning_shape :: "MultiDimBinning \<Rightarrow> nat list" where
  "binning_shape b = map num_bins (dimensions b)"

text \<open>
  Modelled from the spec: the collaborator's \<^verbatim>\<open>assert_array_fits(array)\<close>, which fails
  if the array is incompatible: the array's shape must be the binning's shape.
\<close>

definition assert_array_fits :: "MultiDimBinning \<Rightarrow> 'a ndarray \<Rightarrow> error + unit" where
  "assert_array_fits b a = (if shape a = binning_shape b then Inr () else Inl ShapeError)"

text \<open>
  Modelled from the spec: the collaborator's \<^verbatim>\<open>assert_compat(other_binning)\<close>, which
  fails if the axes differ (compatible means identical axis definitions).
\<close>

definition binning_assert_compat :: "MultiDimBinning \<Rightarrow> MultiDimBinning \<Rightarrow> error + unit" where
  "binning_assert_compat b c = (if dimensions b = dimensions c then Inr () else Inl CompatError)"

text \<open>
  Modelled from the spec: the collaborator's \<^verbatim>\<open>_serializable_state\<close> and
  \<^verbatim>\<open>_hashable_state\<close>, ordered canonical mappings from which the constructor rebuilds the
  binning: the list of the axes.
\<close>

definition binning_serializable_state :: "MultiDimBinning \<Rightarrow> OneDimBinning list" where
  "binning_serializable_state b = dimensions b"

definition binning_hashable_state :: "MultiDimBinning \<Rightarrow> OneDimBinning list" where
  "binning_hashable_state b = dimensions b"

subsection \<open>Indices\<close>

text \<open>
  One component of a multi-dimensional index is an integer or a slice \<^verbatim>\<open>lo:hi\<close> with
  optional bounds (unit step). On an axis of length \<open>n\<close> it selects the positions
  \<open>start..<stop\<close>: an integer counts from the end when negative and must lie in range,
  the bounds of a slice are clipped.
\<close>

datatype icomp = IInt int | ISlice "int option" "int option"

definition clip :: "nat \<Rightarrow> int \<Rightarrow> nat" where
  "clip n i = (if i < 0 then nat (max (i + int n) 0) else min (nat i) n)"

fun resolve :: "nat \<Rightarrow> icomp \<Rightarrow> error + nat \<times> nat" where
  "resolve n (IInt i) =
     (if - int n \<le> i \<and> i < int n
      then (let j = nat (if i < 0 then i + int n else i) in Inr (j, Suc j))
      else Inl (IndexError ''index out of bounds''))"
| "resolve n (ISlice lo hi) =
     Inr (case lo of None \<Rightarrow> 0 | Some i \<Rightarrow> clip n i, case hi of None \<Rightarrow> n | Some i \<Rightarrow> clip n i)"

text \<open>
  Modelled from the spec: indexing the collaborator with a multi-dimensional index, one
  component per axis, gives the sub-binning of the selected bins. An integer component
  keeps its axis, with one bin.
\<close>

definition dim_getitem :: "OneDimBinning \<Rightarrow> icomp \<Rightarrow> error + OneDimBinning" where
  "dim_getitem d c =
     (case resolve (num_bins d) c of
        Inl e \<Rightarrow> Inl e
      | Inr (lo, hi) \<Rightarrow> Inr (d\<lparr>bin_edges := take (hi - lo + 1) (drop lo (bin_edges d))\<rparr>))"

definition binning_getitem :: "MultiDimBinning \<Rightarrow> icomp list \<Rightarrow> error + MultiDimBinning" where
  "binning_getitem b idx =
     (if length idx \<noteq> length (dimensions b)
      then Inl (ValueError ''index does not match the number of dimensions'')
      else (case first_error (map2 dim_getitem (dimensions b) idx) of
              Inl e \<Rightarrow> Inl e
            | Inr ds \<Rightarrow> Inr (MultiDimBinning ds)))"

text \<open>
  numpy's basic indexing of an array by a tuple of integers and slices: missing
  components select whole axes, an integer component removes its axis from the shape.
\<close>

fun select :: "nat list \<Rightarrow> (nat \<times> nat) list \<Rightarrow> 'a list \<Rightarrow> 'a list" where
  "select (n # ns) ((lo, hi) # rs) xs =
     concat (map (\<lambda>i. select ns rs (take (prod_list ns) (drop (i * prod_list ns) xs))) [lo ..< hi])"
| "select [] [] xs = xs"
| "select s rs xs = []"

fun kept_axes :: "icomp list \<Rightarrow> (nat \<times> nat) list \<Rightarrow> nat list" where
  "kept_axes (IInt i # cs) (r # rs) = kept_axes cs rs"
| "kept_axes (ISlice lo hi # cs) ((a, b) # rs) = (b - a) # kept_axes cs rs"
| "kept_axes cs rs = []"

definition np_getitem :: "'a ndarray \<Rightarrow> icomp list \<Rightarrow> error + 'a ndarray" where
  "np_getitem a idx =
     (if length (shape a) < length idx then Inl (IndexError ''too many indices for array'')
      else (let cs = idx @ replicate (length (shape a) - length idx) (ISlice None None)
            in case first_error (map2 resolve (shape a) cs) of
                 Inl e \<Rightarrow> Inl e
               | Inr rs \<Rightarrow> Inr \<lparr>shape = kept_axes cs rs, flat = select (shape a) rs (flat a)\<rparr>))"

section \<open>The histogram entity: class Map\<close>

record Map =
  name :: string
  hist :: "elem ndarray"
  binning :: MultiDimBinning
  hash :: "int option"
  tex :: string
  full_comparison :: bool
  parent_indexer :: "nat list option"

text \<open>
  The operand of an operator, classified by the tests the methods make in turn:
  \<^verbatim>\<open>np.isscalar(other)\<close> (numbers, and strings too), \<^verbatim>\<open>type(other) is Variable\<close>,
  \<^verbatim>\<open>isinstance(other, np.ndarray)\<close>, \<^verbatim>\<open>isinstance(other, Map)\<close>. \<open>Other\<close> is a value
  that passes none of them; it carries the text of its type.
\<close>

datatype operand =
    Scalar npfloat
  | Str string
  | Variable npfloat npfloat
  | NdArray "elem ndarray"
  | OMap Map
  | Other string

fun np_isscalar :: "operand \<Rightarrow> bool" where
  "np_isscalar (Scalar x) = True"
| "np_isscalar (Str s) = True"
| "np_isscalar x = False"

fun is_Variable :: "operand \<Rightarrow> bool" where
  "is_Variable (Variable n s) = True"
| "is_Variable x = False"

fun is_ndarray :: "operand \<Rightarrow> bool" where
  "is_ndarray (NdArray a) = True"
| "is_ndarray x = False"

fun is_Map :: "operand \<Rightarrow> bool" where
  "is_Map (OMap m) = True"
| "is_Map x = False"

fun py_type :: "operand \<Rightarrow> string" where
  "py_type (Scalar x) = ''<type 'float'>''"
| "py_type (Str s) = ''<type 'str'>''"
| "py_type (Variable n s) = ''<class 'uncertainties.core.Variable'>''"
| "py_type (NdArray a) = ''<type 'numpy.ndarray'>''"
| "py_type (OMap m) = ''<class 'pisa.core.map.Map'>''"
| "py_type (Other t) = t"

definition HASH_SIGFIGS :: nat where
  "HASH_SIGFIGS = 12"

definition type_error :: "operand \<Rightarrow> error" where
  "type_error v = TypeError (''Type of argument not supported: '' @ [CHR 0x22] @ py_type v @ [CHR 0x22])"

subsection \<open>Construction\<close>

definition bsl :: string where
  "bsl = [CHR 0x5C]"

text \<open>The built-in table of display labels of \<^verbatim>\<open>Map.__init__\<close>.\<close>

definition tex_dict :: "(string \<times> string) list" where
  "tex_dict =
    [(''nue'', bsl @ ''nu_e''),
     (''numu'', bsl @ ''nu_{'' @ bsl @ ''mu}''),
     (''nutau'', bsl @ ''nu_{'' @ bsl @ ''tau}''),
     (''nuebar'', bsl @ ''bar{'' @ bsl @ ''nu}_e''),
     (''numubar'', bsl @ ''bar{'' @ bsl @ ''nu}_{'' @ bsl @ ''mu}''),
     (''nutaubar'', bsl @ ''bar{'' @ bsl @ ''nu}_{'' @ bsl @ ''tau}''),
     (''nue_cc'', bsl @ ''nu_e'' @ bsl @ '' CC''),
     (''numu_cc'', bsl @ ''nu_{'' @ bsl @ ''mu}'' @ bsl @ '' CC''),
     (''nutau_cc'', bsl @ ''nu_{'' @ bsl @ ''tau}'' @ bsl @ '' CC''),
     (''nue_nc'', bsl @ ''nu_e'' @ bsl @ '' NC''),
     (''numu_nc'', bsl @ ''nu_{'' @ bsl @ ''mu}'' @ bsl @ '' NC''),
     (''nutau_nc'', bsl @ ''nu_{'' @ bsl @ ''tau}'' @ bsl @ '' NC''),
     (''nuebar_cc'', bsl @ ''bar{'' @ bsl @ ''nu}_e'' @ bsl @ '' CC''),
     (''numubar_cc'', bsl @ ''bar{'' @ bsl @ ''nu}_{'' @ bsl @ ''mu}'' @ bsl @ '' CC''),
     (''nutaubar_cc'', bsl @ ''bar{'' @ bsl @ ''nu}_{'' @ bsl @ ''tau}'' @ bsl @ '' CC''),
     (''nuebar_nc'', bsl @ ''bar{'' @ bsl @ ''nu}_e'' @ bsl @ '' NC''),
     (''numubar_nc'', bsl @ ''bar{'' @ bsl @ ''nu}_{'' @ bsl @ ''mu}'' @ bsl @ '' NC''),
     (''nutaubar_nc'', bsl @ ''bar{'' @ bsl @ ''nu}_{'' @ bsl @ ''tau}'' @ bsl @ '' NC'')]"

definition default_tex :: "string \<Rightarrow> string" where
  "default_tex nm =
     (case map_of tex_dict nm of Some t \<Rightarrow> t | None \<Rightarrow> bsl @ ''rm{'' @ nm @ ''}'')"

text \<open>
  \<^verbatim>\<open>Map.assert_compat(other)\<close>: nothing to check for a scalar or a Variable, the array
  fit for an array, the binnings' compatibility for a Map, and a failed assertion for
  anything else.
\<close>

definition Map_assert_compat :: "Map \<Rightarrow> operand \<Rightarrow> error + unit" where
  "Map_assert_compat self other =
     (if np_isscalar other \<or> is_Variable other then Inr ()
      else (case other of
              NdArray a \<Rightarrow> assert_array_fits (binning self) a
            | OMap m \<Rightarrow> binning_assert_compat (binning self) (binning m)
            | _ \<Rightarrow> Inl (AssertionError ''Unrecognized type'')))"

text \<open>
  The standard deviations handed to \<^verbatim>\<open>unp.uarray(self._hist, error_hist)\<close>. Only a
  number or an array of numbers converts to floats.
\<close>

fun std_dev_array :: "operand \<Rightarrow> error + elem ndarray" where
  "std_dev_array (Scalar x) = Inr (scalar_array (F x))"
| "std_dev_array (NdArray a) = Inr a"
| "std_dev_array (Variable n s) = Inr (scalar_array (U n s))"
| "std_dev_array (Str s) = Inl (ValueError ''could not convert string to float'')"
| "std_dev_array v = Inl (TypeError ''float() argument must be a string or a number'')"

text \<open>\<^verbatim>\<open>Map.set_errors(error_hist)\<close> replaces the array of the entity.\<close>

definition set_errors :: "Map \<Rightarrow> operand option \<Rightarrow> error + Map" where
  "set_errors self error_hist =
     (case error_hist of
        None \<Rightarrow> Inr (self\<lparr>hist := float_array (nominal_values (hist self))\<rparr>)
      | Some eh \<Rightarrow>
          (case Map_assert_compat self eh of
             Inl e \<Rightarrow> Inl e
           | Inr u \<Rightarrow>
               (case std_dev_array eh of
                  Inl e \<Rightarrow> Inl e
                | Inr stds \<Rightarrow>
                    (case unp_uarray (hist self) stds of
                       Inl e \<Rightarrow> Inl e
                     | Inr h \<Rightarrow> Inr (self\<lparr>hist := h\<rparr>)))))"

text \<open>
  The \<^verbatim>\<open>binning\<close> argument of the constructor: a MultiDimBinning, a sequence of
  dimensions, a mapping of the constructor's keyword arguments, or something else.
\<close>

datatype binning_arg =
    BObj MultiDimBinning
  | BSeq "OneDimBinning list"
  | BMapping "OneDimBinning list"
  | BOther

definition Map_init ::
  "string \<Rightarrow> elem ndarray \<Rightarrow> binning_arg \<Rightarrow> operand option \<Rightarrow> int option \<Rightarrow> string option \<Rightarrow> bool
     \<Rightarrow> error + Map" where
  "Map_init nm h b error_hist hsh tx fc =
     (let tx' = (case tx of None \<Rightarrow> default_tex nm | Some t \<Rightarrow> t) in
      case (case b of
              BObj bo \<Rightarrow> Inr bo
            | BSeq ds \<Rightarrow> Inr (MultiDimBinning ds)
            | BMapping ds \<Rightarrow> Inr (MultiDimBinning ds)
            | BOther \<Rightarrow> Inl (ValueError ''Do not know what to do with `binning`'')) of
        Inl e \<Rightarrow> Inl e
      | Inr bo \<Rightarrow>
          (case assert_array_fits bo h of
             Inl e \<Rightarrow> Inl e
           | Inr u \<Rightarrow>
               (let self = \<lparr>name = nm, hist = h, binning = bo, hash = hsh, tex = tx',
                            full_comparison = fc, parent_indexer = None\<rparr>
                in case error_hist of
                     None \<Rightarrow> Inr self
                   | Some eh \<Rightarrow> set_errors self (Some eh))))"

text \<open>\<^verbatim>\<open>Map.set_poisson_errors()\<close>.\<close>

definition set_poisson_errors :: "Map \<Rightarrow> error + Map" where
  "set_poisson_errors self =
     (case np_sqrt (hist self) of
        Inl e \<Rightarrow> Inl e
      | Inr s \<Rightarrow>
          (case unp_uarray (hist self) s of
             Inl e \<Rightarrow> Inl e
           | Inr h \<Rightarrow> Inr (self\<lparr>hist := h\<rparr>)))"

subsection \<open>The decorator \<^verbatim>\<open>new_obj\<close>\<close>

text \<open>
  A decorated method returns a dictionary of state updates. The decorator takes every
  attribute of \<^verbatim>\<open>_state_attrs\<close> from the dictionary if it is there and copies it from
  the entity otherwise, and constructs a new Map from the result.
\<close>

record updates =
  u_name :: "string option"
  u_hist :: "elem ndarray option"
  u_binning :: "MultiDimBinning option"
  u_hash :: "int option option"
  u_tex :: "string option"
  u_full_comparison :: "bool option"

definition no_updates :: updates where
  "no_updates = \<lparr>u_name = None, u_hist = None, u_binning = None, u_hash = None,
                  u_tex = None, u_full_comparison = None\<rparr>"

definition new_obj :: "Map \<Rightarrow> updates \<Rightarrow> error + Map" where
  "new_obj self state_updates =
     Map_init
       (case u_name state_updates of Some v \<Rightarrow> v | None \<Rightarrow> name self)
       (case u_hist state_updates of Some v \<Rightarrow> v | None \<Rightarrow> hist self)
       (BObj (case u_binning state_updates of Some v \<Rightarrow> v | None \<Rightarrow> binning self))
       None
       (case u_hash state_updates of Some v \<Rightarrow> v | None \<Rightarrow> hash self)
       (Some (case u_tex state_updates of Some v \<Rightarrow> v | None \<Rightarrow> tex self))
       (case u_full_comparison state_updates of Some v \<Rightarrow> v | None \<Rightarrow> full_comparison self)"

subsection \<open>Indexing\<close>

text \<open>
  The index handed to \<^verbatim>\<open>Map.index\<close>: a tuple of components, or a single integer or
  slice, which is no sequence and has no length.
\<close>

datatype index = IdxTuple "icomp list" | IdxSingle icomp

definition index_updates :: "Map \<Rightarrow> index \<Rightarrow> error + updates" where
  "index_updates self idx =
     (case idx of
        IdxSingle c \<Rightarrow> Inl (TypeError ''object has no len()'')
      | IdxTuple cs \<Rightarrow>
          (case binning_getitem (binning self) cs of
             Inl e \<Rightarrow> Inl e
           | Inr new_binning \<Rightarrow>
               (case np_getitem (hist self) cs of
                  Inl e \<Rightarrow> Inl e
                | Inr sub \<Rightarrow>
                    (case np_reshape sub (binning_shape new_binning) of
                       Inl e \<Rightarrow> Inl e
                     | Inr h \<Rightarrow>
                         Inr (no_updates\<lparr>u_binning := Some new_binning, u_hist := Some h\<rparr>)))))"

definition Map_index :: "Map \<Rightarrow> index \<Rightarrow> error + Map" where
  "Map_index self idx =
     (case index_updates self idx of Inl e \<Rightarrow> Inl e | Inr upd \<Rightarrow> new_obj self upd)"

definition Map_getitem :: "Map \<Rightarrow> index \<Rightarrow> error + Map" where
  "Map_getitem self idx = Map_index self idx"

text \<open>
  \<^verbatim>\<open>Map.iterbins()\<close> yields one entity per bin, in row-major order. The entities are
  constructed one after the other, each with \<^verbatim>\<open>hash=None\<close>; the list holds the outcome
  of every step.
\<close>

fun unravel_index :: "nat \<Rightarrow> nat list \<Rightarrow> nat list" where
  "unravel_index i [] = []"
| "unravel_index i (n # ns) = (i div prod_list ns) # unravel_index (i mod prod_list ns) ns"

definition iterbins_step :: "Map \<Rightarrow> nat \<Rightarrow> error + Map" where
  "iterbins_step self i =
     (let idx_item = unravel_index i (shape (hist self));
          idx_view = map (\<lambda>x. ISlice (Some (int x)) (Some (int x + 1))) idx_item
      in case np_getitem (hist self) idx_view of
           Inl e \<Rightarrow> Inl e
         | Inr sub \<Rightarrow>
             (case binning_getitem (binning self) (map (\<lambda>x. IInt (int x)) idx_item) of
                Inl e \<Rightarrow> Inl e
              | Inr b \<Rightarrow>
                  (case Map_init (name self) sub (BObj b) None None (Some (tex self))
                          (full_comparison self) of
                     Inl e \<Rightarrow> Inl e
                   | Inr single_bin_map \<Rightarrow>
                       Inr (single_bin_map\<lparr>parent_indexer := Some idx_item\<rparr>))))"

definition iterbins :: "Map \<Rightarrow> (error + Map) list" where
  "iterbins self = map (iterbins_step self) [0 ..< prod_list (shape (hist self))]"

subsection \<open>Arithmetic\<close>

text \<open>
  The methods \<^verbatim>\<open>__add__\<close>, \<^verbatim>\<open>__sub__\<close>, \<^verbatim>\<open>__mul__\<close>, \<^verbatim>\<open>__div__\<close> and \<^verbatim>\<open>__pow__\<close> have
  the same body up to the numpy operator they apply to the arrays. What the operator
  does to two elements (float arithmetic, propagation of uncertainties, and the
  exceptions of either) is the parameter \<open>ew\<close>.
\<close>

definition arith_updates :: "elementwise \<Rightarrow> binop \<Rightarrow> Map \<Rightarrow> operand \<Rightarrow> error + updates" where
  "arith_updates ew bop self other =
     (if np_isscalar other \<or> is_Variable other then
        (case other of
           Scalar x \<Rightarrow>
             (case np_elementwise (ew bop) (hist self) (scalar_array (F x)) of
                Inl e \<Rightarrow> Inl e
              | Inr h \<Rightarrow> Inr (no_updates\<lparr>u_hist := Some h\<rparr>))
         | Variable n s \<Rightarrow>
             (case np_elementwise (ew bop) (hist self) (scalar_array (U n s)) of
                Inl e \<Rightarrow> Inl e
              | Inr h \<Rightarrow> Inr (no_updates\<lparr>u_hist := Some h\<rparr>))
         | _ \<Rightarrow> Inl (TypeError ''unsupported operand type(s)''))
      else (case other of
              NdArray a \<Rightarrow>
                (case np_elementwise (ew bop) (hist self) a of
                   Inl e \<Rightarrow> Inl e
                 | Inr h \<Rightarrow> Inr (no_updates\<lparr>u_hist := Some h\<rparr>))
            | OMap m \<Rightarrow>
                (case np_elementwise (ew bop) (hist self) (hist m) of
                   Inl e \<Rightarrow> Inl e
                 | Inr h \<Rightarrow>
                     Inr (no_updates\<lparr>u_hist := Some h,
                            u_full_comparison := Some (full_comparison self \<or> full_comparison m)\<rparr>))
            | _ \<Rightarrow> Inl (type_error other)))"

definition Map_add :: "elementwise \<Rightarrow> Map \<Rightarrow> operand \<Rightarrow> error + Map" where
  "Map_add ew self other =
     (case arith_updates ew Add self other of Inl e \<Rightarrow> Inl e | Inr upd \<Rightarrow> new_obj self upd)"

definition Map_sub :: "elementwise \<Rightarrow> Map \<Rightarrow> operand \<Rightarrow> error + Map" where
  "Map_sub ew self other =
     (case arith_updates ew Sub self other of Inl e \<Rightarrow> Inl e | Inr upd \<Rightarrow> new_obj self upd)"

definition Map_mul :: "elementwise \<Rightarrow> Map \<Rightarrow> operand \<Rightarrow> error + Map" where
  "Map_mul ew self other =
     (case arith_updates ew Mul self other of Inl e \<Rightarrow> Inl e | Inr upd \<Rightarrow> new_obj self upd)"

definition Map_div :: "elementwise \<Rightarrow> Map \<Rightarrow> operand \<Rightarrow> error + Map" where
  "Map_div ew self other =
     (case arith_updates ew Div self other of Inl e \<Rightarrow> Inl e | Inr upd \<Rightarrow> new_obj self upd)"

definition Map_pow :: "elementwise \<Rightarrow> Map \<Rightarrow> operand \<Rightarrow> error + Map" where
  "Map_pow ew self other =
     (case arith_updates ew Pow self other of Inl e \<Rightarrow> Inl e | Inr upd \<Rightarrow> new_obj self upd)"

text \<open>The operator a symbol stands for, as Python dispatches it on a Map.\<close>

fun Map_binop :: "binop \<Rightarrow> elementwise \<Rightarrow> Map \<Rightarrow> operand \<Rightarrow> error + Map" where
  "Map_binop Add = Map_add"
| "Map_binop Sub = Map_sub"
| "Map_binop Mul = Map_mul"
| "Map_binop Div = Map_div"
| "Map_binop Pow = Map_pow"

subsection \<open>States, equality and serialization\<close>

text \<open>
  Modelled from the spec: the function \<^verbatim>\<open>normQuant\<close> of \<^verbatim>\<open>pisa.utils.numerical\<close> is not
  among the sources. It rounds an array to a number of significant figures; it is a
  parameter of everything that canonicalizes a state.
\<close>

type_synonym normquant = "nat \<Rightarrow> npfloat ndarray \<Rightarrow> npfloat ndarray"

record hashable_state =
  hs_name :: string
  hs_hist :: "npfloat ndarray"
  hs_binning :: "OneDimBinning list"
  hs_error_hist :: "npfloat ndarray option"
  hs_tex :: string
  hs_full_comparison :: bool

record serializable_state =
  ss_name :: string
  ss_hist :: "npfloat ndarray"
  ss_binning :: "OneDimBinning list"
  ss_error_hist :: "npfloat ndarray option"
  ss_hash :: "int option"
  ss_tex :: string
  ss_full_comparison :: bool

definition Map_serializable_state :: "Map \<Rightarrow> serializable_state" where
  "Map_serializable_state self =
     (let stddevs = std_devs (hist self) in
      \<lparr>ss_name = name self,
       ss_hist = nominal_values (hist self),
       ss_binning = binning_serializable_state (binning self),
       ss_error_hist = (if np_all_eq stddevs (scalar_array (Fin 0)) then None else Some stddevs),
       ss_hash = hash self,
       ss_tex = tex self,
       ss_full_comparison = full_comparison self\<rparr>)"

definition Map_hashable_state :: "normquant \<Rightarrow> Map \<Rightarrow> hashable_state" where
  "Map_hashable_state normQuant self =
     (let stddevs = normQuant HASH_SIGFIGS (std_devs (hist self)) in
      \<lparr>hs_name = name self,
       hs_hist = normQuant HASH_SIGFIGS (nominal_values (hist self)),
       hs_binning = binning_hashable_state (binning self),
       hs_error_hist = (if np_all_eq stddevs (scalar_array (Fin 0)) then None
                        else Some (normQuant HASH_SIGFIGS stddevs)),
       hs_tex = tex self,
       hs_full_comparison = full_comparison self\<rparr>)"

text \<open>
  Modelled from the spec: the function \<^verbatim>\<open>recursiveEquality\<close> of
  \<^verbatim>\<open>pisa.utils.comparisons\<close> is not among the sources. The spec calls it a full recursive
  structural comparison of the canonicalized states.
\<close>

definition recursiveEquality :: "hashable_state \<Rightarrow> hashable_state \<Rightarrow> bool" where
  "recursiveEquality x y = (x = y)"

text \<open>
  Modelled from the spec: the module \<^verbatim>\<open>pisa.utils.jsons\<close> is not among the sources. The
  persisted state is the nested ordered mapping of the serializable state; arrays are
  written as nested numeric sequences and read back as arrays, the absent error array is
  the null value. Reading a file gives the state that was written to it, so
  \<^verbatim>\<open>Map.from_json\<close> is modelled on the state read.
\<close>

definition Map_from_json :: "serializable_state \<Rightarrow> error + Map" where
  "Map_from_json state =
     Map_init (ss_name state) (float_array (ss_hist state)) (BMapping (ss_binning state))
       (map_option (\<lambda>a. NdArray (float_array a)) (ss_error_hist state))
       (ss_hash state) (Some (ss_tex state)) (ss_full_comparison state)"

text \<open>\<^verbatim>\<open>Map.__eq__\<close> and \<^verbatim>\<open>Map.__ne__\<close>.\<close>

definition Map_eq :: "normquant \<Rightarrow> Map \<Rightarrow> operand \<Rightarrow> error + bool" where
  "Map_eq normQuant self other =
     (if np_isscalar other then
        (case other of
           Scalar x \<Rightarrow> Inr (np_all_eq (nominal_values (hist self)) (scalar_array x))
         | _ \<Rightarrow> Inr False)
      else if is_Variable other \<or> is_ndarray other then
        (let a = (case other of
                    Variable n s \<Rightarrow> scalar_array (U n s)
                  | NdArray arr \<Rightarrow> arr
                  | _ \<Rightarrow> scalar_array (F NaN))
         in Inr (np_all_eq (nominal_values (hist self)) (nominal_values a)
                 \<and> np_all_eq (std_devs (hist self)) (std_devs a)))
      else (case other of
              OMap m \<Rightarrow>
                (if full_comparison self \<or> full_comparison m \<or> hash self = None \<or> hash m = None
                 then Inr (recursiveEquality (Map_hashable_state normQuant self)
                                             (Map_hashable_state normQuant m))
                 else Inr (hash self = hash m))
            | _ \<Rightarrow> Inl (type_error other)))"

definition Map_ne :: "normquant \<Rightarrow> Map \<Rightarrow> operand \<Rightarrow> error + bool" where
  "Map_ne normQuant self other =
     (case Map_eq normQuant self other of Inl e \<Rightarrow> Inl e | Inr b \<Rightarrow> Inr (\<not> b))"

section \<open>The histogram collection: class MapSet\<close>

record MapSet =
  ms_maps :: "Map list"
  ms_name :: "string option"
  ms_tex :: string
  collate_by_name :: bool
  collate_by_num :: bool





definition hashes :: "MapSet \<Rightarrow> int option list" where
  "hashes self = map hash (ms_maps self)"

text \<open>
  Modelled from the spec: the function \<^verbatim>\<open>hash_obj\<close> of \<^verbatim>\<open>pisa.utils.hash\<close> is not among
  the sources; it is the parameter that turns the tuple of the members' hashes into one
  hash.
\<close>

definition MapSet_hash :: "(int option list \<Rightarrow> int) \<Rightarrow> MapSet \<Rightarrow> int option" where
  "MapSet_hash hash_obj self =
     (let hs = hashes self in
      if list_all (\<lambda>h. h \<noteq> None) hs then Some (hash_obj hs) else None)"






subsection \<open>The dispatch \<^verbatim>\<open>apply_to_maps\<close>\<close>







section \<open>Well-formed entities\<close>

text \<open>
  A flat array is well formed if it has as many elements as its shape says. A number
  with uncertainty never carries a negative finite standard deviation. The constructor
  keeps the array of an entity in the shape of its binning.
\<close>

definition wf_array :: "'a ndarray \<Rightarrow> bool" where
  "wf_array a = (length (flat a) = prod_list (shape a))"

fun valid_elem :: "elem \<Rightarrow> bool" where
  "valid_elem (U n (Fin s)) = (0 \<le> s)"
| "valid_elem e = True"

definition Map_invariant :: "Map \<Rightarrow> bool" where
  "Map_invariant m =
     (wf_array (hist m) \<and> shape (hist m) = binning_shape (binning m)
      \<and> list_all valid_elem (flat (hist m)))"

section \<open>The spec's Poisson errors\<close>

text \<open>
  The standard deviation the spec gives a bin after \<^verbatim>\<open>apply_poisson_errors()\<close>:
  \<^verbatim>\<open>sqrt(max(nominal_value, 0))\<close>.
\<close>

fun spec_poisson_std :: "npfloat \<Rightarrow> npfloat" where
  "spec_poisson_std (Fin x) = Fin (sqrt (max x 0))"
| "spec_poisson_std PInf = PInf"
| "spec_poisson_std NInf = Fin 0"
| "spec_poisson_std NaN = NaN"

section \<open>Example entities\<close>

text \<open>
  Concrete inputs for the examples below: two axes, binnings of shape (2, 1) that differ
  in the edges of the energy axis, an instance of the elementwise arithmetic that is
  exact on finite plain floats (and answers NaN elsewhere), and a \<^verbatim>\<open>normQuant\<close> that
  leaves its argument as it is.
\<close>

definition energy_axis :: OneDimBinning where
  "energy_axis = \<lparr>dim_name = ''energy'', bin_edges = [1, 10, 100]\<rparr>"

definition energy_axis' :: OneDimBinning where
  "energy_axis' = \<lparr>dim_name = ''energy'', bin_edges = [1, 20, 80]\<rparr>"

definition coszen_axis :: OneDimBinning where
  "coszen_axis = \<lparr>dim_name = ''coszen'', bin_edges = [-1, 0]\<rparr>"

definition binning_a :: MultiDimBinning where
  "binning_a = MultiDimBinning [energy_axis, coszen_axis]"

definition binning_b :: MultiDimBinning where
  "binning_b = MultiDimBinning [energy_axis', coszen_axis]"

fun finite_arith :: elementwise where
  "finite_arith Add (F (Fin a)) (F (Fin b)) = Inr (F (Fin (a + b)))"
| "finite_arith Sub (F (Fin a)) (F (Fin b)) = Inr (F (Fin (a - b)))"
| "finite_arith Mul (F (Fin a)) (F (Fin b)) = Inr (F (Fin (a * b)))"
| "finite_arith bop x y = Inr (F NaN)"

definition no_rounding :: normquant where
  "no_rounding sigfigs a = a"

definition map_a :: Map where
  "map_a = \<lparr>name = ''x'', hist = \<lparr>shape = [2, 1], flat = [F (Fin 1), F (Fin 4)]\<rparr>,
            binning = binning_a, hash = Some 7, tex = bsl @ ''rm{x}'',
            full_comparison = False, parent_indexer = None\<rparr>"

definition map_b :: Map where
  "map_b = \<lparr>name = ''y'', hist = \<lparr>shape = [2, 1], flat = [F (Fin 2), F (Fin 2)]\<rparr>,
            binning = binning_b, hash = Some 7, tex = bsl @ ''rm{y}'',
            full_comparison = False, parent_indexer = None\<rparr>"

definition map_c :: Map where
  "map_c = \<lparr>name = ''y'', hist = \<lparr>shape = [2, 1], flat = [U (Fin 3) (Fin 1), F (Fin 5)]\<rparr>,
            binning = binning_a, hash = None, tex = bsl @ ''rm{y}'',
            full_comparison = True, parent_indexer = None\<rparr>"

definition map_neg :: Map where
  "map_neg = \<lparr>name = ''x'', hist = \<lparr>shape = [2, 1], flat = [F (Fin 4), F (Fin (- 4))]\<rparr>,
              binning = binning_a, hash = None, tex = bsl @ ''rm{x}'',
              full_comparison = True, parent_indexer = None\<rparr>"

definition set_A :: MapSet where
  "set_A = \<lparr>ms_maps = [map_a, map_c], ms_name = Some ''A'', ms_tex = ''{'' @ bsl @ ''rm A}'',
            collate_by_name = True, collate_by_num = False\<rparr>"

definition set_B :: MapSet where
  "set_B = \<lparr>ms_maps = [map_b, map_a], ms_name = Some ''B'', ms_tex = ''{'' @ bsl @ ''rm B}'',
            collate_by_name = True, collate_by_num = False\<rparr>"


definition sum_hashes :: "int option list \<Rightarrow> int" where
  "sum_hashes hs = sum_list (map (\<lambda>h. case h of None \<Rightarrow> 0 | Some v \<Rightarrow> v) hs)"

section \<open>Properties\<close>

subsection \<open>Auxiliary facts\<close>

lemma Map_binop_unfold:
  "Map_binop bop ew self other =
     (case arith_updates ew bop self other of Inl e \<Rightarrow> Inl e | Inr upd \<Rightarrow> new_obj self upd)"
  by (cases bop) (simp_all add: Map_add_def Map_sub_def Map_mul_def Map_div_def Map_pow_def)

lemma Map_init_no_errors:
  "Map_init nm h (BObj b) None hsh (Some tx) fc =
     (if shape h = binning_shape b
      then Inr \<lparr>name = nm, hist = h, binning = b, hash = hsh, tex = tx,
                full_comparison = fc, parent_indexer = None\<rparr>
      else Inl ShapeError)"
  by (simp add: Map_init_def assert_array_fits_def)

lemma new_obj_fields:
  assumes "new_obj self upd = Inr r"
  shows "name r = (case u_name upd of Some v \<Rightarrow> v | None \<Rightarrow> name self)"
    and "hist r = (case u_hist upd of Some v \<Rightarrow> v | None \<Rightarrow> hist self)"
    and "binning r = (case u_binning upd of Some v \<Rightarrow> v | None \<Rightarrow> binning self)"
    and "hash r = (case u_hash upd of Some v \<Rightarrow> v | None \<Rightarrow> hash self)"
    and "tex r = (case u_tex upd of Some v \<Rightarrow> v | None \<Rightarrow> tex self)"
    and "full_comparison r =
           (case u_full_comparison upd of Some v \<Rightarrow> v | None \<Rightarrow> full_comparison self)"
    and "parent_indexer r = None"
  using assms unfolding new_obj_def Map_init_no_errors
  by (auto split: if_splits)

lemma arith_updates_fields:
  assumes "arith_updates ew bop self other = Inr upd"
  shows "u_name upd = None" and "u_hash upd = None" and "u_tex upd = None"
    and "u_binning upd = None"
    and "u_full_comparison upd =
           (case other of OMap m \<Rightarrow> Some (full_comparison self \<or> full_comparison m) | _ \<Rightarrow> None)"
  using assms unfolding arith_updates_def no_updates_def
  by (cases other; auto split: sum.splits if_splits)+

lemma bc_rev_same: "bc_rev xs xs = Some xs"
  by (induction xs) auto

lemma bc_rev_Nil_right: "bc_rev xs [] = Some xs"
  by (cases xs) auto

lemma broadcast_shapes_same: "broadcast_shapes s s = Some s"
  by (simp add: broadcast_shapes_def bc_rev_same)

lemma broadcast_shapes_scalar: "broadcast_shapes s [] = Some s"
  by (simp add: broadcast_shapes_def bc_rev_Nil_right)

lemma concat_chunks:
  "length zs = m * p \<Longrightarrow> concat (map (\<lambda>i. take p (drop (i * p) zs)) [0..<m]) = zs"
proof (induction m arbitrary: zs)
  case 0
  then show ?case by simp
next
  case (Suc m)
  have split: "[0..<Suc m] = 0 # map Suc [0..<m]"
    by (simp add: upt_conv_Cons map_Suc_upt del: upt_Suc)
  have len: "length (drop p zs) = m * p"
    using Suc.prems by simp
  have "concat (map (\<lambda>i. take p (drop (i * p) zs)) [0..<Suc m])
        = take p zs @ concat (map (\<lambda>i. take p (drop (i * p) (drop p zs))) [0..<m])"
    unfolding split by (simp add: comp_def add.commute)
  also have "\<dots> = take p zs @ drop p zs"
    using Suc.IH [OF len] by simp
  finally show ?case by simp
qed

lemma chunk_length:
  assumes "length zs = m * p" "i < m"
  shows "length (take p (drop (i * p) zs)) = p"
proof -
  have "Suc i * p \<le> m * p"
    using assms(2) by (intro mult_le_mono1) simp
  then show ?thesis
    using assms(1) by simp
qed

lemma bc_data_same:
  "length xs = prod_list s \<Longrightarrow> length ys = prod_list s \<Longrightarrow> bc_data f s xs s ys = map2 f xs ys"
proof (induction s arbitrary: xs ys)
  case Nil
  then obtain x y where "xs = [x]" "ys = [y]"
    by (auto simp: length_Suc_conv)
  then show ?case by simp
next
  case (Cons m ms)
  let ?p = "prod_list ms"
  have lx: "length xs = m * ?p" and ly: "length ys = m * ?p"
    using Cons.prems by simp_all
  have step: "bc_data f ms (chunk m ?p i xs) ms (chunk m ?p i ys)
                = take ?p (drop (i * ?p) (map2 f xs ys))" if "i \<in> set [0..<m]" for i
  proof -
    from that have i: "i < m" by simp
    then have cx: "chunk m ?p i xs = take ?p (drop (i * ?p) xs)"
      and cy: "chunk m ?p i ys = take ?p (drop (i * ?p) ys)"
      by (auto simp: chunk_def)
    show ?thesis
      unfolding cx cy
      using Cons.IH [OF chunk_length [OF lx i] chunk_length [OF ly i]]
      by (simp add: take_zip drop_zip take_map drop_map)
  qed
  have "bc_data f (m # ms) xs (m # ms) ys
          = concat (map (\<lambda>i. bc_data f ms (chunk m ?p i xs) ms (chunk m ?p i ys)) [0..<m])"
    by simp
  also have "\<dots> = concat (map (\<lambda>i. take ?p (drop (i * ?p) (map2 f xs ys))) [0..<m])"
    using step by (metis (no_types, lifting) map_cong)
  also have "\<dots> = map2 f xs ys"
    by (rule concat_chunks) (simp add: lx ly)
  finally show ?case .
qed

lemma bc_data_scalar:
  "length xs = prod_list s \<Longrightarrow>
   bc_data f s xs (replicate (length s) 1) [y] = map (\<lambda>x. f x y) xs"
proof (induction s arbitrary: xs)
  case Nil
  then obtain x where "xs = [x]"
    by (auto simp: length_Suc_conv)
  then show ?case by simp
next
  case (Cons m ms)
  let ?p = "prod_list ms"
  let ?ns = "replicate (length ms) (1::nat)"
  have lx: "length xs = m * ?p"
    using Cons.prems by simp
  have one: "prod_list ?ns = 1"
    by (induction ms) simp_all
  have step: "bc_data f ms (chunk m ?p i xs) ?ns (chunk 1 (prod_list ?ns) i [y])
                = take ?p (drop (i * ?p) (map (\<lambda>x. f x y) xs))" if "i \<in> set [0..<m]" for i
  proof -
    from that have i: "i < m" by simp
    then have cx: "chunk m ?p i xs = take ?p (drop (i * ?p) xs)"
      by (auto simp: chunk_def)
    have cy: "chunk 1 (prod_list ?ns) i [y] = [y]"
      by (simp add: chunk_def one)
    show ?thesis
      unfolding cx cy
      using Cons.IH [OF chunk_length [OF lx i]]
      by (simp add: take_map drop_map)
  qed
  have "bc_data f (m # ms) xs (replicate (length (m # ms)) 1) [y]
          = concat (map (\<lambda>i. bc_data f ms (chunk m ?p i xs) ?ns (chunk 1 (prod_list ?ns) i [y]))
                        [0..<m])"
    by simp
  also have "\<dots> = concat (map (\<lambda>i. take ?p (drop (i * ?p) (map (\<lambda>x. f x y) xs))) [0..<m])"
    using step by (metis (no_types, lifting) map_cong)
  also have "\<dots> = map (\<lambda>x. f x y) xs"
    by (rule concat_chunks) (simp add: lx)
  finally show ?case .
qed

lemma np_broadcast_same:
  "wf_array a \<Longrightarrow> wf_array b \<Longrightarrow> shape b = shape a \<Longrightarrow>
   np_broadcast f a b = Inr \<lparr>shape = shape a, flat = map2 f (flat a) (flat b)\<rparr>"
  by (simp add: np_broadcast_def broadcast_shapes_same pad_shape_def wf_array_def bc_data_same)

lemma np_broadcast_scalar:
  "wf_array a \<Longrightarrow>
   np_broadcast f a (scalar_array y) = Inr \<lparr>shape = shape a, flat = map (\<lambda>x. f x y) (flat a)\<rparr>"
  using bc_data_scalar [of "flat a" "shape a" f y]
  by (simp add: np_broadcast_def scalar_array_def broadcast_shapes_scalar pad_shape_def
      wf_array_def)

lemma np_all_eq_scalar:
  "wf_array a \<Longrightarrow> np_all_eq a (scalar_array z) = list_all (\<lambda>x. feq x z) (flat a)"
  by (simp add: np_all_eq_def np_broadcast_scalar list_all_iff)

lemma first_error_map_Inr: "first_error (map (\<lambda>x. Inr (g x)) xs) = Inr (map g xs)"
  by (induction xs) simp_all




lemma np_elementwise_same:
  "wf_array a \<Longrightarrow> wf_array b \<Longrightarrow> shape b = shape a \<Longrightarrow>
   np_elementwise f a b =
     (case first_error (map2 f (flat a) (flat b)) of
        Inl e \<Rightarrow> Inl e
      | Inr zs \<Rightarrow> Inr \<lparr>shape = shape a, flat = zs\<rparr>)"
  by (simp add: np_elementwise_def np_broadcast_same split: sum.splits)

lemma new_variable_sqrt:
  "is_float e \<Longrightarrow>
   new_variable e (F (fsqrt (nominal_value e))) = Inr (U (nominal_value e) (fsqrt (nominal_value e)))"
proof (cases e)
  case (F v)
  then show ?thesis by (cases v) simp_all
next
  case (U n s)
  assume "is_float e"
  with U show ?thesis by simp
qed

lemma set_poisson_errors_float:
  assumes wf: "wf_array (hist m)" and fl: "list_all is_float (flat (hist m))"
  shows "set_poisson_errors m =
           Inr (m\<lparr>hist := \<lparr>shape = shape (hist m),
                            flat = map (\<lambda>e. U (nominal_value e) (fsqrt (nominal_value e)))
                                       (flat (hist m))\<rparr>\<rparr>)"
proof -
  let ?s = "\<lparr>shape = shape (hist m),
             flat = map (\<lambda>x. F (fsqrt (nominal_value x))) (flat (hist m))\<rparr>"
  have sq: "np_sqrt (hist m) = Inr ?s"
    using fl by (simp add: np_sqrt_def)
  have wfs: "wf_array ?s"
    using wf by (simp add: wf_array_def)
  have "map2 new_variable (flat (hist m)) (flat ?s)
          = map (\<lambda>e. new_variable e (F (fsqrt (nominal_value e)))) (flat (hist m))"
    by (simp add: zip_map2 zip_same_conv_map)
  also have "\<dots> = map (\<lambda>e. Inr (U (nominal_value e) (fsqrt (nominal_value e)))) (flat (hist m))"
    using fl by (intro map_cong refl new_variable_sqrt) (simp add: list_all_iff)
  finally have "first_error (map2 new_variable (flat (hist m)) (flat ?s))
                  = Inr (map (\<lambda>e. U (nominal_value e) (fsqrt (nominal_value e))) (flat (hist m)))"
    by (simp add: first_error_map_Inr)
  then have "unp_uarray (hist m) ?s =
               Inr \<lparr>shape = shape (hist m),
                    flat = map (\<lambda>e. U (nominal_value e) (fsqrt (nominal_value e))) (flat (hist m))\<rparr>"
    unfolding unp_uarray_def using np_elementwise_same [OF wf wfs, of new_variable] by simp
  with sq show ?thesis
    by (simp add: set_poisson_errors_def)
qed



lemma index_updates_fields:
  assumes "index_updates self idx = Inr upd"
  shows "u_name upd = None" and "u_hash upd = None" and "u_tex upd = None"
    and "u_full_comparison upd = None"
  using assms unfolding index_updates_def no_updates_def
  by (auto split: index.splits sum.splits)

lemma iterbins_hash_None:
  assumes "Inr s \<in> set (iterbins m)"
  shows "hash s = None"
proof -
  from assms obtain i where "iterbins_step m i = Inr s"
    by (auto simp: iterbins_def)
  then show ?thesis
    by (auto simp: iterbins_step_def Let_def Map_init_no_errors split: sum.splits if_splits)
qed

lemma Map_getitem_copies_state:
  assumes "Map_getitem m idx = Inr r"
  shows "hash r = hash m \<and> name r = name m \<and> tex r = tex m
         \<and> full_comparison r = full_comparison m"
proof -
  from assms obtain upd where u: "index_updates m idx = Inr upd" and n: "new_obj m upd = Inr r"
    by (auto simp: Map_getitem_def Map_index_def split: sum.splits)
  from new_obj_fields [OF n] index_updates_fields [OF u] show ?thesis
    by simp
qed

lemma feq_zero: "feq x (Fin 0) \<longleftrightarrow> x = Fin 0"
  by (cases x) auto

lemma new_variable_valid:
  "valid_elem e \<Longrightarrow>
   new_variable (F (nominal_value e)) (F (std_dev e)) = Inr (U (nominal_value e) (std_dev e))"
proof (cases e)
  case (F x)
  then show ?thesis by simp
next
  case (U n s)
  assume "valid_elem e"
  with U show ?thesis by (cases s) auto
qed

lemma unp_uarray_valid:
  assumes wf: "wf_array h" and ok: "list_all valid_elem (flat h)"
  shows "unp_uarray (float_array (nominal_values h)) (float_array (std_devs h)) =
           Inr \<lparr>shape = shape h, flat = map (\<lambda>e. U (nominal_value e) (std_dev e)) (flat h)\<rparr>"
proof -
  let ?a = "float_array (nominal_values h)" and ?b = "float_array (std_devs h)"
  have wfa: "wf_array ?a" and wfb: "wf_array ?b" and sh: "shape ?b = shape ?a"
    and sa: "shape ?a = shape h"
    using wf by (simp_all add: wf_array_def float_array_def nominal_values_def std_devs_def)
  have "map2 new_variable (flat ?a) (flat ?b)
          = map (\<lambda>e. new_variable (F (nominal_value e)) (F (std_dev e))) (flat h)"
    by (simp add: float_array_def nominal_values_def std_devs_def zip_map_map zip_same_conv_map)
  also have "\<dots> = map (\<lambda>e. Inr (U (nominal_value e) (std_dev e))) (flat h)"
    using ok by (intro map_cong refl new_variable_valid) (simp add: list_all_iff)
  finally have "first_error (map2 new_variable (flat ?a) (flat ?b))
                  = Inr (map (\<lambda>e. U (nominal_value e) (std_dev e)) (flat h))"
    by (simp add: first_error_map_Inr)
  then show ?thesis
    unfolding unp_uarray_def using np_elementwise_same [OF wfa wfb sh, of new_variable] sa
    by simp
qed

lemma Map_hashable_state_cong:
  assumes "name m' = name m" "tex m' = tex m" "full_comparison m' = full_comparison m"
    and "binning m' = binning m"
    and "nominal_values (hist m') = nominal_values (hist m)"
    and "std_devs (hist m') = std_devs (hist m)"
  shows "Map_hashable_state normQuant m' = Map_hashable_state normQuant m"
  using assms by (simp add: Map_hashable_state_def)

lemma Map_eq_same_state:
  assumes "Map_hashable_state normQuant m' = Map_hashable_state normQuant m"
    and "hash m' = hash m"
  shows "Map_eq normQuant m' (OMap m) = Inr True"
  using assms by (simp add: Map_eq_def recursiveEquality_def)

lemma roundtrip_result:
  assumes inv: "Map_invariant m"
  shows "Map_from_json (Map_serializable_state m) =
           Inr \<lparr>name = name m,
                hist = (if \<forall>e \<in> set (flat (hist m)). std_dev e = Fin 0
                        then float_array (nominal_values (hist m))
                        else \<lparr>shape = shape (hist m),
                              flat = map (\<lambda>e. U (nominal_value e) (std_dev e)) (flat (hist m))\<rparr>),
                binning = binning m, hash = hash m, tex = tex m,
                full_comparison = full_comparison m, parent_indexer = None\<rparr>"
proof -
  from inv have wf: "wf_array (hist m)" and sh: "shape (hist m) = binning_shape (binning m)"
    and ok: "list_all valid_elem (flat (hist m))"
    by (simp_all add: Map_invariant_def)
  have wfs: "wf_array (std_devs (hist m))"
    using wf by (simp add: wf_array_def std_devs_def)
  have zero: "np_all_eq (std_devs (hist m)) (scalar_array (Fin 0))
                \<longleftrightarrow> (\<forall>e \<in> set (flat (hist m)). std_dev e = Fin 0)"
    unfolding np_all_eq_scalar [OF wfs] by (simp add: std_devs_def list_all_iff feq_zero)
  have b: "MultiDimBinning (dimensions (binning m)) = binning m"
    by simp
  show ?thesis
  proof (cases "\<forall>e \<in> set (flat (hist m)). std_dev e = Fin 0")
    case True
    with zero sh show ?thesis
      by (simp add: Map_from_json_def Map_serializable_state_def Map_init_def
          binning_serializable_state_def assert_array_fits_def float_array_def nominal_values_def)
  next
    case False
    with zero sh unp_uarray_valid [OF wf ok] show ?thesis
      by (auto simp: Map_from_json_def Map_serializable_state_def Map_init_def set_errors_def
          Map_assert_compat_def binning_serializable_state_def assert_array_fits_def
          float_array_def nominal_values_def std_devs_def)
  qed
qed













subsection \<open>Equality of entities\<close>

text \<open>
  C1. For two Map entities, \<^verbatim>\<open>a == b\<close> is the full structural comparison of the two
  canonicalized states whenever one of the two asks for full comparison or one of the
  two has no hash, and the comparison of the two hashes otherwise. The canonicalized
  state holds the name, the nominal values and the standard deviations rounded to 12
  significant figures (no standard deviations at all if all of them round to zero), the
  binning's canonical state, the label and the flag. So two maps with the same hash and
  both flags false compare equal whatever their arrays hold.
\<close>

theorem Map_eq_entities:
  "Map_eq normQuant a (OMap b) =
     Inr (if full_comparison a \<or> full_comparison b \<or> hash a = None \<or> hash b = None
          then recursiveEquality (Map_hashable_state normQuant a) (Map_hashable_state normQuant b)
          else hash a = hash b)
   \<and> Map_hashable_state normQuant a =
       \<lparr>hs_name = name a,
        hs_hist = normQuant 12 (nominal_values (hist a)),
        hs_binning = binning_hashable_state (binning a),
        hs_error_hist =
          (if np_all_eq (normQuant 12 (std_devs (hist a))) (scalar_array (Fin 0)) then None
           else Some (normQuant 12 (normQuant 12 (std_devs (hist a))))),
        hs_tex = tex a,
        hs_full_comparison = full_comparison a\<rparr>
   \<and> (\<not> full_comparison a \<and> \<not> full_comparison b \<and> hash a = Some h \<and> hash b = Some h
        \<longrightarrow> Map_eq normQuant a (OMap b) = Inr True)"
  by (simp add: Map_eq_def Map_hashable_state_def HASH_SIGFIGS_def)

theorem Map_eq_entities_witness:
  "\<not> full_comparison map_a \<and> \<not> full_comparison map_b
   \<and> hash map_a = Some 7 \<and> hash map_b = Some 7
   \<and> hist map_a \<noteq> hist map_b
   \<and> Map_eq no_rounding map_a (OMap map_b) = Inr True"
  using Map_eq_entities [of no_rounding map_a map_b 7]
  by (simp add: map_a_def map_b_def)

text \<open>
  C9. For an operand that is neither a scalar, nor a Variable, nor an array, nor a Map,
  \<^verbatim>\<open>m == x\<close> raises the type error that names the type of \<open>x\<close>; it does not return
  False.
\<close>

theorem Map_eq_type_error:
  "\<not> np_isscalar x \<Longrightarrow> \<not> is_Variable x \<Longrightarrow> \<not> is_ndarray x \<Longrightarrow> \<not> is_Map x \<Longrightarrow>
   Map_eq normQuant m x =
     Inl (TypeError (''Type of argument not supported: '' @ [CHR 0x22] @ py_type x @ [CHR 0x22]))"
  by (cases x) (simp_all add: Map_eq_def type_error_def)

theorem Map_eq_type_error_witness:
  "\<not> np_isscalar (Other ''<type 'NoneType'>'') \<and> \<not> is_Variable (Other ''<type 'NoneType'>'')
   \<and> \<not> is_ndarray (Other ''<type 'NoneType'>'') \<and> \<not> is_Map (Other ''<type 'NoneType'>'')
   \<and> Map_eq no_rounding map_a (Other ''<type 'NoneType'>'') =
       Inl (TypeError (''Type of argument not supported: '' @ [CHR 0x22] @ ''<type 'NoneType'>''
                       @ [CHR 0x22]))"
  using Map_eq_type_error [of "Other ''<type 'NoneType'>''" no_rounding map_a]
  by simp

text \<open>
  C10. \<^verbatim>\<open>m != x\<close> is the negation of \<^verbatim>\<open>m == x\<close>: where the equality test returns a truth
  value the inequality test returns the opposite one, and where the equality test raises
  the inequality test raises the same error.
\<close>

theorem Map_ne_negates:
  "(Map_eq normQuant m x = Inr b \<longrightarrow> Map_ne normQuant m x = Inr (\<not> b))
   \<and> (Map_eq normQuant m x = Inl e \<longrightarrow> Map_ne normQuant m x = Inl e)"
  by (simp add: Map_ne_def)

theorem Map_ne_negates_witness:
  "Map_eq no_rounding map_a (OMap map_c) = Inr False
   \<and> Map_ne no_rounding map_a (OMap map_c) = Inr True
   \<and> Map_eq no_rounding map_a (Other ''<type 'list'>'') = Inl (type_error (Other ''<type 'list'>''))
   \<and> Map_ne no_rounding map_a (Other ''<type 'list'>'') = Inl (type_error (Other ''<type 'list'>''))"
proof -
  have 1: "Map_eq no_rounding map_a (OMap map_c) = Inr False"
    by code_simp
  have 2: "Map_eq no_rounding map_a (Other ''<type 'list'>'') = Inl (type_error (Other ''<type 'list'>''))"
    by (simp add: Map_eq_def)
  from 1 2
    Map_ne_negates [of no_rounding map_a "OMap map_c" False "TypeError []"]
    Map_ne_negates [of no_rounding map_a "Other ''<type 'list'>''" False
                       "type_error (Other ''<type 'list'>'')"]
  show ?thesis by simp
qed

subsection \<open>Arithmetic\<close>

text \<open>
  C7. For each of the binary operations \<^verbatim>\<open>+\<close>, \<^verbatim>\<open>-\<close>, \<^verbatim>\<open>*\<close>, \<^verbatim>\<open>/\<close>, \<^verbatim>\<open>**\<close> on a Map:
  when the other operand is a Map the flag \<^verbatim>\<open>full_comparison\<close> of the result is the
  disjunction of the two operands' flags, and for any other operand it is the flag of
  the left entity.
\<close>

theorem arith_full_comparison:
  "Map_binop bop ew a x = Inr r \<Longrightarrow>
   full_comparison r =
     (case x of OMap b \<Rightarrow> full_comparison a \<or> full_comparison b | _ \<Rightarrow> full_comparison a)"
proof -
  assume ok: "Map_binop bop ew a x = Inr r"
  then obtain upd where u: "arith_updates ew bop a x = Inr upd" and n: "new_obj a upd = Inr r"
    by (auto simp: Map_binop_unfold split: sum.splits)
  from new_obj_fields(6)[OF n] arith_updates_fields(5)[OF u]
  show ?thesis by (cases x) simp_all
qed

theorem arith_full_comparison_witness:
  "Map_binop Add finite_arith map_a (OMap map_c) =
     Inr \<lparr>name = ''x'', hist = \<lparr>shape = [2, 1], flat = [F NaN, F (Fin 9)]\<rparr>,
          binning = binning_a, hash = Some 7, tex = bsl @ ''rm{x}'',
          full_comparison = True, parent_indexer = None\<rparr>
   \<and> \<not> full_comparison map_a \<and> full_comparison map_c"
proof -
  have ev: "Map_binop Add finite_arith map_a (OMap map_c) =
     Inr \<lparr>name = ''x'', hist = \<lparr>shape = [2, 1], flat = [F NaN, F (Fin 9)]\<rparr>,
          binning = binning_a, hash = Some 7, tex = bsl @ ''rm{x}'',
          full_comparison = True, parent_indexer = None\<rparr>"
    by code_simp
  from arith_full_comparison [OF ev] ev show ?thesis
    by (simp add: map_a_def map_c_def)
qed




subsection \<open>Poisson errors\<close>

text \<open>
  C6 (as amended). On an entity whose array holds plain floats,
  \<^verbatim>\<open>set_poisson_errors\<close> leaves every nominal value as it is and gives every bin with a
  finite nominal value \<open>x\<close> the standard deviation \<open>sqrt x\<close> when \<open>x\<close> is not
  negative, and NaN when it is.
\<close>

theorem set_poisson_errors_sqrt:
  assumes "wf_array (hist m)" and "list_all is_float (flat (hist m))"
  shows "\<exists>r. set_poisson_errors m = Inr r
           \<and> nominal_values (hist r) = nominal_values (hist m)
           \<and> length (flat (hist r)) = length (flat (hist m))
           \<and> (\<forall>i < length (flat (hist m)). \<forall>x.
                 nominal_value (flat (hist m) ! i) = Fin x \<longrightarrow>
                 std_dev (flat (hist r) ! i) = (if 0 \<le> x then Fin (sqrt x) else NaN))"
  using set_poisson_errors_float [OF assms]
  by (auto simp: nominal_values_def comp_def)

theorem set_poisson_errors_sqrt_witness:
  "wf_array (hist map_neg) \<and> list_all is_float (flat (hist map_neg))
   \<and> (case set_poisson_errors map_neg of
         Inl e \<Rightarrow> False
       | Inr r \<Rightarrow> nominal_values (hist r) = nominal_values (hist map_neg)
                 \<and> map std_dev (flat (hist r)) = [Fin 2, NaN])"
proof -
  have h: "wf_array (hist map_neg)" "list_all is_float (flat (hist map_neg))"
    by (simp_all add: map_neg_def wf_array_def)
  from set_poisson_errors_sqrt [OF h] obtain r where
    r: "set_poisson_errors map_neg = Inr r"
    and nom: "nominal_values (hist r) = nominal_values (hist map_neg)"
    and len: "length (flat (hist r)) = length (flat (hist map_neg))"
    and sd: "\<And>i x. i < length (flat (hist map_neg)) \<Longrightarrow>
               nominal_value (flat (hist map_neg) ! i) = Fin x \<Longrightarrow>
               std_dev (flat (hist r) ! i) = (if 0 \<le> x then Fin (sqrt x) else NaN)"
    by blast
  have "std_dev (flat (hist r) ! 0) = Fin 2"
    using sd [of 0 4] by (simp add: map_neg_def)
  moreover have "std_dev (flat (hist r) ! 1) = NaN"
    using sd [of 1 "- 4"] by (simp add: map_neg_def)
  moreover have "length (flat (hist r)) = 2"
    using len by (simp add: map_neg_def)
  ultimately have "map std_dev (flat (hist r)) = [Fin 2, NaN]"
    by (simp add: list_eq_iff_nth_eq less_Suc_eq numeral_2_eq_2)
  with h r nom show ?thesis by simp
qed

text \<open>
  C6 as stated fails on a bin with a negative nominal value: the code takes the square
  root of the value itself, which is NaN, where the spec's \<^verbatim>\<open>sqrt(max(nominal_value, 0))\<close>
  is 0.
\<close>

theorem set_poisson_errors_counterexample:
  "set_poisson_errors map_neg =
     Inr (map_neg\<lparr>hist := \<lparr>shape = [2, 1], flat = [U (Fin 4) (Fin 2), U (Fin (- 4)) NaN]\<rparr>\<rparr>)
   \<and> map std_dev [U (Fin 4) (Fin 2), U (Fin (- 4)) NaN]
       \<noteq> map (\<lambda>e. spec_poisson_std (nominal_value e)) (flat (hist map_neg))"
proof -
  have h: "wf_array (hist map_neg)" "list_all is_float (flat (hist map_neg))"
    by (simp_all add: map_neg_def wf_array_def)
  show ?thesis
    using set_poisson_errors_float [OF h] by (simp add: map_neg_def)
qed

subsection \<open>Indexing\<close>

text \<open>
  C5. Indexing an entity builds the new entity through \<^verbatim>\<open>new_obj\<close>, which copies every
  attribute the method does not return, the hash among them: the slice of an entity with
  hash 7 has hash 7 again, not None. Name, label and flag are kept as well
  (\<open>Map_getitem_copies_state\<close>). The entities that \<^verbatim>\<open>iterbins\<close> cuts out of the same
  entity do have the hash None (\<open>iterbins_hash_None\<close>).
\<close>

theorem Map_getitem_hash_kept:
  "Map_getitem map_a (IdxTuple [ISlice (Some 0) (Some 1), IInt 0]) =
     Inr \<lparr>name = ''x'', hist = \<lparr>shape = [1, 1], flat = [F (Fin 1)]\<rparr>,
          binning = MultiDimBinning [\<lparr>dim_name = ''energy'', bin_edges = [1, 10]\<rparr>,
                                     \<lparr>dim_name = ''coszen'', bin_edges = [- 1, 0]\<rparr>],
          hash = Some 7, tex = bsl @ ''rm{x}'',
          full_comparison = False, parent_indexer = None\<rparr>"
  by code_simp

subsection \<open>Serialization\<close>

text \<open>
  C2. For every well-formed Map entity, with uncertainties or without, building an entity
  from its serializable state succeeds and gives an entity that compares equal to the
  original, by \<^verbatim>\<open>==\<close> and by the full comparison of the canonicalized states; nominal
  values and standard deviations are the same. When every bin's standard deviation is
  zero the error field of the state is the null value and the rebuilt entity has zero
  errors.
\<close>

theorem roundtrip_equal:
  assumes "Map_invariant m"
  shows "\<exists>m'. Map_from_json (Map_serializable_state m) = Inr m'
           \<and> Map_eq normQuant m' (OMap m) = Inr True
           \<and> recursiveEquality (Map_hashable_state normQuant m') (Map_hashable_state normQuant m)
           \<and> nominal_values (hist m') = nominal_values (hist m)
           \<and> std_devs (hist m') = std_devs (hist m)
           \<and> ((\<forall>e \<in> set (flat (hist m)). std_dev e = Fin 0) \<longrightarrow>
                 ss_error_hist (Map_serializable_state m) = None
                 \<and> (\<forall>e \<in> set (flat (hist m')). std_dev e = Fin 0))"
proof -
  let ?m' = "\<lparr>name = name m,
                hist = (if \<forall>e \<in> set (flat (hist m)). std_dev e = Fin 0
                        then float_array (nominal_values (hist m))
                        else \<lparr>shape = shape (hist m),
                              flat = map (\<lambda>e. U (nominal_value e) (std_dev e)) (flat (hist m))\<rparr>),
                binning = binning m, hash = hash m, tex = tex m,
                full_comparison = full_comparison m, parent_indexer = None\<rparr>"
  from assms have wfs: "wf_array (std_devs (hist m))"
    by (simp add: Map_invariant_def wf_array_def std_devs_def)
  have rt: "Map_from_json (Map_serializable_state m) = Inr ?m'"
    by (rule roundtrip_result [OF assms])
  have nom: "nominal_values (hist ?m') = nominal_values (hist m)"
    by (simp add: nominal_values_def float_array_def comp_def)
  have sd: "std_devs (hist ?m') = std_devs (hist m)"
    by (auto simp: std_devs_def float_array_def nominal_values_def comp_def)
  have hs: "Map_hashable_state normQuant ?m' = Map_hashable_state normQuant m"
    by (rule Map_hashable_state_cong [OF _ _ _ _ nom sd]) simp_all
  have eq: "Map_eq normQuant ?m' (OMap m) = Inr True"
    by (rule Map_eq_same_state [OF hs]) simp
  have none: "(\<forall>e \<in> set (flat (hist m)). std_dev e = Fin 0) \<longrightarrow>
                 ss_error_hist (Map_serializable_state m) = None
                 \<and> (\<forall>e \<in> set (flat (hist ?m')). std_dev e = Fin 0)"
    unfolding Map_serializable_state_def Let_def np_all_eq_scalar [OF wfs]
    by (simp add: std_devs_def list_all_iff feq_zero float_array_def)
  from rt eq hs nom sd none show ?thesis
    by (intro exI [of _ ?m']) (simp add: recursiveEquality_def)
qed

theorem roundtrip_equal_witness:
  "Map_invariant map_c \<and> Map_invariant map_a
   \<and> (case Map_from_json (Map_serializable_state map_c) of
         Inl e \<Rightarrow> False
       | Inr m' \<Rightarrow> Map_eq no_rounding m' (OMap map_c) = Inr True
                  \<and> std_devs (hist m') = \<lparr>shape = [2, 1], flat = [Fin 1, Fin 0]\<rparr>)
   \<and> (case Map_from_json (Map_serializable_state map_a) of
         Inl e \<Rightarrow> False
       | Inr m' \<Rightarrow> Map_eq no_rounding m' (OMap map_a) = Inr True
                  \<and> ss_error_hist (Map_serializable_state map_a) = None
                  \<and> (\<forall>e \<in> set (flat (hist m')). std_dev e = Fin 0))"
proof -
  have c: "Map_invariant map_c"
    by (simp add: Map_invariant_def wf_array_def map_c_def binning_shape_def binning_a_def
        num_bins_def energy_axis_def coszen_axis_def)
  have a: "Map_invariant map_a"
    by (simp add: Map_invariant_def wf_array_def map_a_def binning_shape_def binning_a_def
        num_bins_def energy_axis_def coszen_axis_def)
  have za: "\<forall>e \<in> set (flat (hist map_a)). std_dev e = Fin 0"
    by (simp add: map_a_def)
  have sc: "std_devs (hist map_c) = \<lparr>shape = [2, 1], flat = [Fin 1, Fin 0]\<rparr>"
    by (simp add: map_c_def std_devs_def)
  from roundtrip_equal [OF c, of no_rounding] roundtrip_equal [OF a, of no_rounding] za sc c a
  show ?thesis
    by (auto split: sum.splits)
qed

subsection \<open>Collections\<close>

text \<open>
  C8. The hash of a MapSet is one hash combined from the tuple of the members' hashes
  when every member has a hash, and None as soon as one member has none.
\<close>

theorem MapSet_hash_all_or_none:
  "MapSet_hash hash_obj s =
     (if \<forall>m \<in> set (ms_maps s). hash m \<noteq> None
      then Some (hash_obj (map hash (ms_maps s))) else None)"
  by (simp add: MapSet_hash_def hashes_def list_all_iff)

theorem MapSet_hash_all_or_none_witness:
  "MapSet_hash sum_hashes set_B = Some 14 \<and> MapSet_hash sum_hashes set_A = None"
  using MapSet_hash_all_or_none [of sum_hashes set_B] MapSet_hash_all_or_none [of sum_hashes set_A]
  by (simp add: set_A_def set_B_def map_a_def map_b_def map_c_def sum_hashes_def)



end
